theory Spec2Isabelle
  imports Main "HOL-Library.Sublist"
begin

section \<open>Python values\<close>

text \<open>
  The module \<^verbatim>\<open>oauth2client/google_credentials_json.py\<close> works on what
  \<^verbatim>\<open>json.load\<close> returns and on the keyword arguments of
  \<^verbatim>\<open>serialize_data\<close>: \<^verbatim>\<open>None\<close>, booleans, integers, strings, lists and
  dictionaries with string keys. A dictionary is an association list in insertion
  order; a key is looked up with \<open>map_of\<close>. The module never looks inside a number, so
  JSON numbers with a fraction are not given a constructor of their own.
\<close>

datatype pyval =
    PNone
  | PBool bool
  | PInt int
  | PStr string
  | PList "pyval list"
  | PDict "(string \<times> pyval) list"

text \<open>
  The exceptions that can leave the module. \<^verbatim>\<open>InvalidCredentialModelError\<close> is the
  module's own exception and carries its message; \<^verbatim>\<open>KeyError\<close> carries the key;
  \<^verbatim>\<open>TypeError\<close> and \<^verbatim>\<open>UnboundLocalError\<close> are raised by the interpreter;
  \<^verbatim>\<open>ValueError\<close> is what the JSON decoder raises on malformed text.
\<close>

datatype error =
    InvalidCredentialModelError string
  | KeyError string
  | TypeError
  | UnboundLocalError
  | ValueError

text \<open>
  \<^verbatim>\<open>serialize_data\<close> compares its argument \<^verbatim>\<open>credential_type\<close> to the class
  constants with \<^verbatim>\<open>is\<close>, which is object identity, not equality of values. The
  class constants are string literals, which the interpreter interns: a reference is
  the same object as the constant exactly when it refers to the interned string of
  that content. So an argument is a value together with the fact whether it is the
  interned object (\<open>Interned\<close>, what a literal or the class attribute itself gives) or
  an object of its own (\<open>Fresh\<close>, what a string built at run time is: read from a
  file, decoded from JSON, concatenated).
\<close>

datatype pyref = Interned pyval | Fresh pyval

fun deref :: "pyref \<Rightarrow> pyval" where
  "deref (Interned v) = v"
| "deref (Fresh v) = v"

text \<open>\<^verbatim>\<open>r is c\<close> for a class constant \<open>c\<close> (an interned string).\<close>

definition is_constant :: "pyref \<Rightarrow> string \<Rightarrow> bool" where
  "is_constant r c = (r = Interned (PStr c))"

subsection \<open>Dictionary and container primitives\<close>

text \<open>\<^verbatim>\<open>d[k] = v\<close> on a dictionary: replace the value in place, or append the key.\<close>

primrec dict_setitem :: "string \<Rightarrow> pyval \<Rightarrow> (string \<times> pyval) list \<Rightarrow> (string \<times> pyval) list" where
  "dict_setitem k v [] = [(k, v)]"
| "dict_setitem k v (p # ps) = (if fst p = k then (k, v) # ps else p # dict_setitem k v ps)"

definition dict_keys :: "(string \<times> pyval) list \<Rightarrow> string list" where
  "dict_keys d = map fst d"

text \<open>
  \<^verbatim>\<open>k in obj\<close> for a string \<open>k\<close>: a key of a dictionary, an element of a list, a
  substring of a string; \<^verbatim>\<open>None\<close>, booleans and integers are not iterable.
\<close>

fun py_contains :: "pyval \<Rightarrow> string \<Rightarrow> error + bool" where
  "py_contains (PDict d) k = Inr (k \<in> set (dict_keys d))"
| "py_contains (PList xs) k = Inr (PStr k \<in> set xs)"
| "py_contains (PStr s) k = Inr (sublist k s)"
| "py_contains PNone k = Inl TypeError"
| "py_contains (PBool b) k = Inl TypeError"
| "py_contains (PInt i) k = Inl TypeError"

text \<open>
  \<^verbatim>\<open>obj[k] = v\<close> for a string \<open>k\<close>: only a dictionary takes it (a list wants an
  integer index, a string is immutable, the others do not support item assignment).
\<close>

fun py_setitem :: "pyval \<Rightarrow> string \<Rightarrow> pyval \<Rightarrow> error + pyval" where
  "py_setitem (PDict d) k v = Inr (PDict (dict_setitem k v d))"
| "py_setitem obj k v = Inl TypeError"

text \<open>\<^verbatim>\<open>obj[k]\<close> for a string \<open>k\<close>: a missing key of a dictionary is a \<^verbatim>\<open>KeyError\<close>.\<close>

fun py_getitem :: "pyval \<Rightarrow> string \<Rightarrow> error + pyval" where
  "py_getitem (PDict d) k = (case map_of d k of None \<Rightarrow> Inl (KeyError k) | Some v \<Rightarrow> Inr v)"
| "py_getitem obj k = Inl TypeError"

text \<open>\<^verbatim>\<open>sep.join(xs)\<close>.\<close>

fun join :: "string \<Rightarrow> string list \<Rightarrow> string" where
  "join sep [] = []"
| "join sep [x] = x"
| "join sep (x # y # ys) = x @ sep @ join sep (y # ys)"

section \<open>What the module takes from outside\<close>

text \<open>
  The two default URIs are imported from the package \<^verbatim>\<open>oauth2client\<close>, the JSON
  decoder from the standard library, and the order in which Python iterates over a
  set is not specified. All four are parameters of the model.
\<close>

record env =
  GOOGLE_TOKEN_URI :: string
  GOOGLE_REVOKE_URI :: string
  json_loads :: "string \<Rightarrow> error + pyval"
  set_iter :: "string set \<Rightarrow> string list"

section \<open>The class \<^verbatim>\<open>GoogleCredentialsJson\<close>\<close>

definition TYPE_SERVICE_ACCOUNT :: string where
  "TYPE_SERVICE_ACCOUNT = ''service_account''"

definition TYPE_AUTHORIZED_USER :: string where
  "TYPE_AUTHORIZED_USER = ''authorized_user''"

definition TYPE_FIELD_NAME :: string where
  "TYPE_FIELD_NAME = ''type''"

definition CLIENT_ID_FIELD_NAME :: string where
  "CLIENT_ID_FIELD_NAME = ''client_id''"

definition CLIENT_EMAIL_FIELD_NAME :: string where
  "CLIENT_EMAIL_FIELD_NAME = ''client_email''"

definition PRIVATE_KEY_ID_FIELD_NAME :: string where
  "PRIVATE_KEY_ID_FIELD_NAME = ''private_key_id''"

definition PRIVATE_KEY_FIELD_NAME :: string where
  "PRIVATE_KEY_FIELD_NAME = ''private_key''"

definition CLIENT_SECRET_FIELD_NAME :: string where
  "CLIENT_SECRET_FIELD_NAME = ''client_secret''"

definition REFRESH_TOKEN_FIELD_NAME :: string where
  "REFRESH_TOKEN_FIELD_NAME = ''refresh_token''"

definition TOKEN_URI_FIELD_NAME :: string where
  "TOKEN_URI_FIELD_NAME = ''token_uri''"

definition REVOKE_URI_FIELD_NAME :: string where
  "REVOKE_URI_FIELD_NAME = ''revoke_uri''"

definition REQUIRED_SERVICE_ACCOUNT_FIELDS :: "string set" where
  "REQUIRED_SERVICE_ACCOUNT_FIELDS =
     set [TYPE_FIELD_NAME, CLIENT_ID_FIELD_NAME, CLIENT_EMAIL_FIELD_NAME,
          PRIVATE_KEY_ID_FIELD_NAME, PRIVATE_KEY_FIELD_NAME]"

definition REQUIRED_AUTHORIZED_USER_FIELDS :: "string set" where
  "REQUIRED_AUTHORIZED_USER_FIELDS =
     set [TYPE_FIELD_NAME, CLIENT_ID_FIELD_NAME, CLIENT_SECRET_FIELD_NAME,
          REFRESH_TOKEN_FIELD_NAME]"

text \<open>
  \<^verbatim>\<open>_raise_exception_for_missing_fields\<close>: the exception it raises. The fields come
  as a set; \<open>set_iter\<close> is the order in which \<^verbatim>\<open>join\<close> meets them.
\<close>

definition raise_exception_for_missing_fields :: "env \<Rightarrow> string set \<Rightarrow> error" where
  "raise_exception_for_missing_fields E missing_fields =
     InvalidCredentialModelError
       (''The following field(s) must be defined: '' @ join '', '' (set_iter E missing_fields))"

text \<open>\<^verbatim>\<open>_raise_exception_for_unknown_type\<close>: the exception it raises.\<close>

definition raise_exception_for_unknown_type :: error where
  "raise_exception_for_unknown_type =
     InvalidCredentialModelError
       ([CHR 0x27] @ ''type'' @ [CHR 0x27] @ '' field should be defined (and have one of the ''
        @ [CHR 0x27] @ TYPE_AUTHORIZED_USER @ [CHR 0x27] @ '' or '' @ [CHR 0x27]
        @ TYPE_SERVICE_ACCOUNT @ [CHR 0x27] @ '' values)'')"

text \<open>\<^verbatim>\<open>_check_credential_type\<close>: compares with \<^verbatim>\<open>==\<close>, that is, by value.\<close>

definition check_credential_type :: "pyval \<Rightarrow> error + unit" where
  "check_credential_type credential_type =
     (if \<not> (credential_type = PStr TYPE_SERVICE_ACCOUNT \<or>
             credential_type = PStr TYPE_AUTHORIZED_USER)
      then Inl raise_exception_for_unknown_type
      else Inr ())"

text \<open>
  \<^verbatim>\<open>_validate_credential_object\<close>. The local \<^verbatim>\<open>missing_fields\<close> is unbound until
  one of the two \<^verbatim>\<open>if\<close> statements assigns it, which the model keeps as an option.
\<close>

definition validate_credential_object :: "env \<Rightarrow> pyval \<Rightarrow> error + pyval" where
  "validate_credential_object E credential_object =
     (if credential_object = PNone
      then Inl (InvalidCredentialModelError ''Empty credential object.'')
      else
        case py_getitem credential_object TYPE_FIELD_NAME of
          Inl e \<Rightarrow> Inl e
        | Inr credential_type \<Rightarrow>
            (case check_credential_type credential_type of
               Inl e \<Rightarrow> Inl e
             | Inr _ \<Rightarrow>
                 (case credential_object of
                    PDict d \<Rightarrow>
                      (let m0 = None;
                           m1 = (if credential_type = PStr TYPE_AUTHORIZED_USER
                                 then Some (REQUIRED_AUTHORIZED_USER_FIELDS - set (dict_keys d))
                                 else m0);
                           m2 = (if credential_type = PStr TYPE_SERVICE_ACCOUNT
                                 then Some (REQUIRED_SERVICE_ACCOUNT_FIELDS - set (dict_keys d))
                                 else m1)
                       in case m2 of
                            None \<Rightarrow> Inl UnboundLocalError
                          | Some missing_fields \<Rightarrow>
                              if missing_fields \<noteq> {}
                              then Inl (raise_exception_for_missing_fields E missing_fields)
                              else Inr credential_object)
                  | _ \<Rightarrow> Inl TypeError)))"

text \<open>
  \<^verbatim>\<open>_set_optional_fields\<close>. A keyword argument is an option: omitted, it takes the
  default of the signature.
\<close>

definition set_optional_fields :: "env \<Rightarrow> pyval \<Rightarrow> pyval option \<Rightarrow> pyval option \<Rightarrow> error + pyval" where
  "set_optional_fields E obj token_uri_arg revoke_uri_arg =
     (let token_uri = (case token_uri_arg of None \<Rightarrow> PStr (GOOGLE_TOKEN_URI E) | Some v \<Rightarrow> v);
          revoke_uri = (case revoke_uri_arg of None \<Rightarrow> PStr (GOOGLE_REVOKE_URI E) | Some v \<Rightarrow> v)
      in case py_contains obj TOKEN_URI_FIELD_NAME of
           Inl e \<Rightarrow> Inl e
         | Inr has_token \<Rightarrow>
             (case (if \<not> has_token then py_setitem obj TOKEN_URI_FIELD_NAME token_uri
                    else Inr obj) of
                Inl e \<Rightarrow> Inl e
              | Inr obj1 \<Rightarrow>
                  (case py_contains obj1 REVOKE_URI_FIELD_NAME of
                     Inl e \<Rightarrow> Inl e
                   | Inr has_revoke \<Rightarrow>
                       (if \<not> has_revoke then py_setitem obj1 REVOKE_URI_FIELD_NAME revoke_uri
                        else Inr obj1))))"

text \<open>
  \<^verbatim>\<open>serialize_data\<close>, with the arguments in the order of the signature. The two
  branches test \<^verbatim>\<open>credential_type\<close> with \<^verbatim>\<open>is\<close>; the last statement calls
  \<^verbatim>\<open>_check_credential_type\<close> for its exception only, and when that call returns the
  function ends without a \<^verbatim>\<open>return\<close>, so its value is \<^verbatim>\<open>None\<close>.
\<close>

definition serialize_data ::
  "env \<Rightarrow> pyref \<Rightarrow> pyval \<Rightarrow> pyval \<Rightarrow> pyval \<Rightarrow> pyval \<Rightarrow> pyval \<Rightarrow> pyval
     \<Rightarrow> pyval option \<Rightarrow> pyval option \<Rightarrow> bool \<Rightarrow> error + pyval" where
  "serialize_data E credential_type client_id client_email client_secret private_key
       private_key_id refresh_token token_uri revoke_uri include_optional_fields =
     (let tok = Some (case token_uri of None \<Rightarrow> PStr (GOOGLE_TOKEN_URI E) | Some v \<Rightarrow> v);
          rev = Some (case revoke_uri of None \<Rightarrow> PStr (GOOGLE_REVOKE_URI E) | Some v \<Rightarrow> v)
      in
      if is_constant credential_type TYPE_SERVICE_ACCOUNT then
        (let d = [];
             d = dict_setitem TYPE_FIELD_NAME (PStr TYPE_SERVICE_ACCOUNT) d;
             d = dict_setitem CLIENT_ID_FIELD_NAME client_id d;
             d = dict_setitem CLIENT_EMAIL_FIELD_NAME client_email d;
             d = dict_setitem PRIVATE_KEY_ID_FIELD_NAME private_key_id d;
             d = dict_setitem PRIVATE_KEY_FIELD_NAME private_key d
         in case (if include_optional_fields
                  then set_optional_fields E (PDict d) tok rev
                  else Inr (PDict d)) of
              Inl e \<Rightarrow> Inl e
            | Inr credential_object \<Rightarrow> validate_credential_object E credential_object)
      else if is_constant credential_type TYPE_AUTHORIZED_USER then
        (let d = [];
             d = dict_setitem TYPE_FIELD_NAME (PStr TYPE_AUTHORIZED_USER) d;
             d = dict_setitem CLIENT_ID_FIELD_NAME client_id d;
             d = dict_setitem CLIENT_SECRET_FIELD_NAME client_secret d;
             d = dict_setitem REFRESH_TOKEN_FIELD_NAME refresh_token d
         in case (if include_optional_fields
                  then set_optional_fields E (PDict d) tok rev
                  else Inr (PDict d)) of
              Inl e \<Rightarrow> Inl e
            | Inr credential_object \<Rightarrow> validate_credential_object E credential_object)
      else
        case check_credential_type (deref credential_type) of
          Inl e \<Rightarrow> Inl e
        | Inr _ \<Rightarrow> Inr PNone)"

text \<open>
  \<^verbatim>\<open>loads\<close> and \<^verbatim>\<open>load\<close>. A stream is the text it yields; \<^verbatim>\<open>json.load(fp)\<close> decodes
  what \<^verbatim>\<open>fp.read()\<close> returns.
\<close>

definition loads :: "env \<Rightarrow> string \<Rightarrow> error + pyval" where
  "loads E s =
     (case json_loads E s of
        Inl e \<Rightarrow> Inl e
      | Inr decoded \<Rightarrow>
          (case set_optional_fields E decoded None None of
             Inl e \<Rightarrow> Inl e
           | Inr obj \<Rightarrow> validate_credential_object E obj))"

definition json_load :: "env \<Rightarrow> string \<Rightarrow> error + pyval" where
  "json_load E fp = json_loads E fp"

definition load :: "env \<Rightarrow> string \<Rightarrow> error + pyval" where
  "load E fp =
     (case json_load E fp of
        Inl e \<Rightarrow> Inl e
      | Inr decoded \<Rightarrow>
          (case set_optional_fields E decoded None None of
             Inl e \<Rightarrow> Inl e
           | Inr obj \<Rightarrow> validate_credential_object E obj))"

section \<open>A concrete environment\<close>

text \<open>
  For evaluating the functions on concrete inputs: the URIs of Google's OAuth 2.0
  endpoints, a decoder that knows four texts, and an iteration that meets the field
  names in alphabetical order.
\<close>

definition sample_text_service_account :: string where
  \<open>sample_text_service_account =
     ''{"type": "service_account", "client_id": "123", "client_email": "dummy@google.com", "private_key_id": "ABCDEF", "private_key": "k"}''\<close>

definition sample_text_missing_fields :: string where
  \<open>sample_text_missing_fields = ''{"type":"service_account","client_id":"123"}''\<close>

definition sample_text_unknown_type :: string where
  \<open>sample_text_unknown_type = ''{"type": "badtype", "client_id": "123"}''\<close>

definition sample_text_authorized_user :: string where
  \<open>sample_text_authorized_user =
     ''{"type": "authorized_user", "client_id": "123", "client_secret": "secret", "refresh_token": "alabalaportocala", "token_uri": "https://accounts.google.com/o/oauth2/token", "revoke_uri": "https://accounts.google.com/o/oauth2/revoke"}''\<close>

definition sample_json_loads :: "string \<Rightarrow> error + pyval" where
  "sample_json_loads s =
     (if s = sample_text_service_account then
        Inr (PDict [(''type'', PStr ''service_account''), (''client_id'', PStr ''123''),
                    (''client_email'', PStr ''dummy@google.com''),
                    (''private_key_id'', PStr ''ABCDEF''), (''private_key'', PStr ''k'')])
      else if s = sample_text_missing_fields then
        Inr (PDict [(''type'', PStr ''service_account''), (''client_id'', PStr ''123'')])
      else if s = sample_text_unknown_type then
        Inr (PDict [(''type'', PStr ''badtype''), (''client_id'', PStr ''123'')])
      else if s = sample_text_authorized_user then
        Inr (PDict [(''type'', PStr ''authorized_user''), (''client_id'', PStr ''123''),
                    (''client_secret'', PStr ''secret''),
                    (''refresh_token'', PStr ''alabalaportocala''),
                    (''token_uri'', PStr ''https://accounts.google.com/o/oauth2/token''),
                    (''revoke_uri'', PStr ''https://accounts.google.com/o/oauth2/revoke'')])
      else Inl ValueError)"

definition sample_set_iter :: "string set \<Rightarrow> string list" where
  "sample_set_iter S =
     filter (\<lambda>f. f \<in> S)
       [''client_email'', ''client_id'', ''client_secret'', ''private_key'',
        ''private_key_id'', ''refresh_token'', ''type'']"

definition sample_env :: env where
  "sample_env =
     \<lparr>GOOGLE_TOKEN_URI = ''https://accounts.google.com/o/oauth2/token'',
      GOOGLE_REVOKE_URI = ''https://accounts.google.com/o/oauth2/revoke'',
      json_loads = sample_json_loads,
      set_iter = sample_set_iter\<rparr>"

section \<open>Lemmas on the primitives\<close>

lemmas field_names =
  TYPE_SERVICE_ACCOUNT_def TYPE_AUTHORIZED_USER_def TYPE_FIELD_NAME_def
  CLIENT_ID_FIELD_NAME_def CLIENT_EMAIL_FIELD_NAME_def PRIVATE_KEY_ID_FIELD_NAME_def
  PRIVATE_KEY_FIELD_NAME_def CLIENT_SECRET_FIELD_NAME_def REFRESH_TOKEN_FIELD_NAME_def
  TOKEN_URI_FIELD_NAME_def REVOKE_URI_FIELD_NAME_def

lemma map_of_dict_setitem: "map_of (dict_setitem k v d) = (map_of d)(k \<mapsto> v)"
  by (induction d) auto

lemma dict_keys_dict_setitem:
  "set (dict_keys (dict_setitem k v d)) = insert k (set (dict_keys d))"
  by (induction d) (auto simp: dict_keys_def)

lemma in_dict_keys_iff: "k \<in> set (dict_keys d) \<longleftrightarrow> map_of d k \<noteq> None"
  by (simp add: dict_keys_def map_of_eq_None_iff)

section \<open>Lemmas on the operations\<close>

text \<open>On a dictionary \<^verbatim>\<open>_set_optional_fields\<close> returns a dictionary: the keys it had and
  the two URIs, old values kept.\<close>

lemma set_optional_fields_dict:
  "\<exists>d'. set_optional_fields E (PDict d) t r = Inr (PDict d')
     \<and> set (dict_keys d') =
         insert TOKEN_URI_FIELD_NAME (insert REVOKE_URI_FIELD_NAME (set (dict_keys d)))
     \<and> map_of d' TOKEN_URI_FIELD_NAME =
         Some (case map_of d TOKEN_URI_FIELD_NAME of
                 Some w \<Rightarrow> w
               | None \<Rightarrow> (case t of None \<Rightarrow> PStr (GOOGLE_TOKEN_URI E) | Some v \<Rightarrow> v))
     \<and> map_of d' REVOKE_URI_FIELD_NAME =
         Some (case map_of d REVOKE_URI_FIELD_NAME of
                 Some w \<Rightarrow> w
               | None \<Rightarrow> (case r of None \<Rightarrow> PStr (GOOGLE_REVOKE_URI E) | Some v \<Rightarrow> v))
     \<and> (\<forall>k. k \<noteq> TOKEN_URI_FIELD_NAME \<longrightarrow> k \<noteq> REVOKE_URI_FIELD_NAME
            \<longrightarrow> map_of d' k = map_of d k)"
  by (auto simp: set_optional_fields_def Let_def map_of_dict_setitem dict_keys_dict_setitem
        in_dict_keys_iff field_names split: option.splits)

lemma set_optional_fields_present:
  "TOKEN_URI_FIELD_NAME \<in> set (dict_keys d) \<Longrightarrow> REVOKE_URI_FIELD_NAME \<in> set (dict_keys d)
     \<Longrightarrow> set_optional_fields E (PDict d) t r = Inr (PDict d)"
  by (simp add: set_optional_fields_def Let_def)

text \<open>\<^verbatim>\<open>_validate_credential_object\<close> on a dictionary, branch by branch.\<close>

lemma validate_dict:
  "validate_credential_object E (PDict d) =
     (case map_of d TYPE_FIELD_NAME of
        None \<Rightarrow> Inl (KeyError TYPE_FIELD_NAME)
      | Some t \<Rightarrow>
          if t = PStr TYPE_SERVICE_ACCOUNT then
            (if REQUIRED_SERVICE_ACCOUNT_FIELDS - set (dict_keys d) \<noteq> {}
             then Inl (raise_exception_for_missing_fields E
                         (REQUIRED_SERVICE_ACCOUNT_FIELDS - set (dict_keys d)))
             else Inr (PDict d))
          else if t = PStr TYPE_AUTHORIZED_USER then
            (if REQUIRED_AUTHORIZED_USER_FIELDS - set (dict_keys d) \<noteq> {}
             then Inl (raise_exception_for_missing_fields E
                         (REQUIRED_AUTHORIZED_USER_FIELDS - set (dict_keys d)))
             else Inr (PDict d))
          else Inl raise_exception_for_unknown_type)"
  by (simp add: validate_credential_object_def check_credential_type_def Let_def
           split: option.splits)

lemma validate_returns_argument:
  "validate_credential_object E obj = Inr r \<Longrightarrow> r = obj"
  by (auto simp: validate_credential_object_def Let_def
           split: if_splits sum.splits option.splits pyval.splits)

text \<open>\<^verbatim>\<open>load\<close> is \<^verbatim>\<open>loads\<close> on the text of the stream.\<close>

lemma load_eq_loads: "load E fp = loads E fp"
  by (simp add: load_def loads_def json_load_def)

text \<open>\<^verbatim>\<open>serialize_data\<close> called with the class constant itself.\<close>

lemma serialize_data_service_account:
  "serialize_data E (Interned (PStr TYPE_SERVICE_ACCOUNT)) client_id client_email
       client_secret private_key private_key_id refresh_token t r flag =
     Inr (PDict
       ([(TYPE_FIELD_NAME, PStr TYPE_SERVICE_ACCOUNT), (CLIENT_ID_FIELD_NAME, client_id),
         (CLIENT_EMAIL_FIELD_NAME, client_email), (PRIVATE_KEY_ID_FIELD_NAME, private_key_id),
         (PRIVATE_KEY_FIELD_NAME, private_key)] @
        (if flag
         then [(TOKEN_URI_FIELD_NAME,
                  case t of None \<Rightarrow> PStr (GOOGLE_TOKEN_URI E) | Some v \<Rightarrow> v),
               (REVOKE_URI_FIELD_NAME,
                  case r of None \<Rightarrow> PStr (GOOGLE_REVOKE_URI E) | Some v \<Rightarrow> v)]
         else [])))"
  by (simp add: serialize_data_def is_constant_def set_optional_fields_def
        validate_credential_object_def check_credential_type_def
        REQUIRED_SERVICE_ACCOUNT_FIELDS_def dict_keys_def Let_def field_names)

lemma serialize_data_authorized_user:
  "serialize_data E (Interned (PStr TYPE_AUTHORIZED_USER)) client_id client_email
       client_secret private_key private_key_id refresh_token t r flag =
     Inr (PDict
       ([(TYPE_FIELD_NAME, PStr TYPE_AUTHORIZED_USER), (CLIENT_ID_FIELD_NAME, client_id),
         (CLIENT_SECRET_FIELD_NAME, client_secret), (REFRESH_TOKEN_FIELD_NAME, refresh_token)] @
        (if flag
         then [(TOKEN_URI_FIELD_NAME,
                  case t of None \<Rightarrow> PStr (GOOGLE_TOKEN_URI E) | Some v \<Rightarrow> v),
               (REVOKE_URI_FIELD_NAME,
                  case r of None \<Rightarrow> PStr (GOOGLE_REVOKE_URI E) | Some v \<Rightarrow> v)]
         else [])))"
  by (simp add: serialize_data_def is_constant_def set_optional_fields_def
        validate_credential_object_def check_credential_type_def
        REQUIRED_AUTHORIZED_USER_FIELDS_def dict_keys_def Let_def field_names)

text \<open>Any other reference: no branch is taken, and the final check decides.\<close>

lemma serialize_data_not_constant:
  "ct \<noteq> Interned (PStr TYPE_SERVICE_ACCOUNT) \<Longrightarrow> ct \<noteq> Interned (PStr TYPE_AUTHORIZED_USER) \<Longrightarrow>
   serialize_data E ct client_id client_email client_secret private_key private_key_id
       refresh_token t r flag =
     (if deref ct = PStr TYPE_SERVICE_ACCOUNT \<or> deref ct = PStr TYPE_AUTHORIZED_USER
      then Inr PNone else Inl raise_exception_for_unknown_type)"
  by (simp add: serialize_data_def is_constant_def check_credential_type_def Let_def)

lemma unknown_type_message:
  "raise_exception_for_unknown_type =
     InvalidCredentialModelError
       (CHR 0x27 # ''type' field should be defined (and have one of the 'authorized_user' or 'service_account' values)'')"
  by (simp add: raise_exception_for_unknown_type_def field_names)

section \<open>The claims\<close>

text \<open>
  C1. The claim holds of the function described; the code departs from it.
  \<^verbatim>\<open>serialize_data\<close> stores every field of the variant under its key, \<^verbatim>\<open>None\<close>
  when the caller gave no value, and \<^verbatim>\<open>_validate_credential_object\<close> looks at the keys
  only, so the validation that ends each branch cannot see an absent field. Called with
  the class constant \<^verbatim>\<open>TYPE_SERVICE_ACCOUNT\<close> and no field at all, the function does
  not raise: it returns the document with every field mapped to \<^verbatim>\<open>None\<close>.
\<close>

theorem C1_build_absent_fields_returned:
  "serialize_data sample_env (Interned (PStr ''service_account'')) PNone PNone PNone PNone
       PNone PNone None None False =
     Inr (PDict [(''type'', PStr ''service_account''), (''client_id'', PNone),
                 (''client_email'', PNone), (''private_key_id'', PNone),
                 (''private_key'', PNone)])"
  by (simp add: serialize_data_def is_constant_def validate_credential_object_def
        check_credential_type_def REQUIRED_SERVICE_ACCOUNT_FIELDS_def dict_keys_def
        Let_def field_names)

text \<open>
  C2. The claim holds of the function described; the code departs from it. A
  \<^verbatim>\<open>credential_type\<close> that equals a known string without being the class constant
  itself makes both \<^verbatim>\<open>is\<close> tests false and then satisfies the final
  \<^verbatim>\<open>_check_credential_type\<close>, which compares by value: \<^verbatim>\<open>serialize_data\<close> ends
  without a \<^verbatim>\<open>return\<close> and its value is \<^verbatim>\<open>None\<close>, with no exception.
\<close>

theorem C2_build_returns_none:
  "serialize_data E (Fresh (PStr TYPE_SERVICE_ACCOUNT)) client_id client_email client_secret
       private_key private_key_id refresh_token token_uri revoke_uri flag = Inr PNone
   \<and> serialize_data E (Fresh (PStr TYPE_AUTHORIZED_USER)) client_id client_email
       client_secret private_key private_key_id refresh_token token_uri revoke_uri flag
     = Inr PNone"
  by (simp add: serialize_data_not_constant)

text \<open>
  C3. When the value of \<^verbatim>\<open>credential_type\<close> is neither known string,
  \<^verbatim>\<open>serialize_data\<close> fails with \<^verbatim>\<open>InvalidCredentialModelError\<close> and the message that
  names both known values, whatever the other arguments are; \<^verbatim>\<open>loads\<close> and \<^verbatim>\<open>load\<close>
  fail in the same way on a decoded dictionary whose \<^verbatim>\<open>type\<close> is neither known string.
\<close>

theorem C3_unknown_type_fails:
  "(deref ct \<noteq> PStr TYPE_SERVICE_ACCOUNT \<and> deref ct \<noteq> PStr TYPE_AUTHORIZED_USER \<longrightarrow>
      serialize_data E ct client_id client_email client_secret private_key private_key_id
          refresh_token token_uri revoke_uri include_optional_fields =
        Inl (InvalidCredentialModelError
          (CHR 0x27 # ''type' field should be defined (and have one of the 'authorized_user' or 'service_account' values)'')))
   \<and> (json_loads E s = Inr (PDict d) \<and> map_of d TYPE_FIELD_NAME = Some t
        \<and> t \<noteq> PStr TYPE_SERVICE_ACCOUNT \<and> t \<noteq> PStr TYPE_AUTHORIZED_USER \<longrightarrow>
      loads E s =
        Inl (InvalidCredentialModelError
          (CHR 0x27 # ''type' field should be defined (and have one of the 'authorized_user' or 'service_account' values)''))
      \<and> load E s =
        Inl (InvalidCredentialModelError
          (CHR 0x27 # ''type' field should be defined (and have one of the 'authorized_user' or 'service_account' values)'')))"
proof (intro conjI impI)
  assume a: "deref ct \<noteq> PStr TYPE_SERVICE_ACCOUNT \<and> deref ct \<noteq> PStr TYPE_AUTHORIZED_USER"
  then have "ct \<noteq> Interned (PStr TYPE_SERVICE_ACCOUNT)" "ct \<noteq> Interned (PStr TYPE_AUTHORIZED_USER)"
    by auto
  then show "serialize_data E ct client_id client_email client_secret private_key private_key_id
          refresh_token token_uri revoke_uri include_optional_fields =
        Inl (InvalidCredentialModelError
          (CHR 0x27 # ''type' field should be defined (and have one of the 'authorized_user' or 'service_account' values)''))"
    using a by (simp add: serialize_data_not_constant unknown_type_message)
next
  assume a: "json_loads E s = Inr (PDict d) \<and> map_of d TYPE_FIELD_NAME = Some t
        \<and> t \<noteq> PStr TYPE_SERVICE_ACCOUNT \<and> t \<noteq> PStr TYPE_AUTHORIZED_USER"
  obtain d' where d': "set_optional_fields E (PDict d) None None = Inr (PDict d')"
    "\<forall>k. k \<noteq> TOKEN_URI_FIELD_NAME \<longrightarrow> k \<noteq> REVOKE_URI_FIELD_NAME \<longrightarrow> map_of d' k = map_of d k"
    using set_optional_fields_dict [of E d None None] by blast
  have "map_of d' TYPE_FIELD_NAME = Some t"
    using d'(2) a by (simp add: field_names)
  then have "validate_credential_object E (PDict d') = Inl raise_exception_for_unknown_type"
    using a by (simp add: validate_dict)
  then show l: "loads E s =
        Inl (InvalidCredentialModelError
          (CHR 0x27 # ''type' field should be defined (and have one of the 'authorized_user' or 'service_account' values)''))"
    using a d'(1) by (simp add: loads_def unknown_type_message)
  then show "load E s =
        Inl (InvalidCredentialModelError
          (CHR 0x27 # ''type' field should be defined (and have one of the 'authorized_user' or 'service_account' values)''))"
    by (simp add: load_eq_loads)
qed

theorem C3_unknown_type_fails_witness:
  "deref (Interned (PStr ''badtype'')) \<noteq> PStr TYPE_SERVICE_ACCOUNT
   \<and> serialize_data sample_env (Interned (PStr ''badtype'')) (PStr ''123'') PNone PNone PNone
        PNone PNone None None False =
        Inl (InvalidCredentialModelError
          (CHR 0x27 # ''type' field should be defined (and have one of the 'authorized_user' or 'service_account' values)''))
   \<and> json_loads sample_env sample_text_unknown_type =
        Inr (PDict [(''type'', PStr ''badtype''), (''client_id'', PStr ''123'')])
   \<and> loads sample_env sample_text_unknown_type =
        Inl (InvalidCredentialModelError
          (CHR 0x27 # ''type' field should be defined (and have one of the 'authorized_user' or 'service_account' values)''))"
  using C3_unknown_type_fails
    [where ct = "Interned (PStr ''badtype'')" and E = sample_env
       and s = sample_text_unknown_type
       and d = "[(''type'', PStr ''badtype''), (''client_id'', PStr ''123'')]"
       and t = "PStr ''badtype''" and client_id = "PStr ''123''" and client_email = PNone
       and client_secret = PNone and private_key = PNone and private_key_id = PNone
       and refresh_token = PNone and token_uri = None and revoke_uri = None
       and include_optional_fields = False]
  by (simp add: sample_env_def sample_json_loads_def sample_text_unknown_type_def
        sample_text_service_account_def sample_text_missing_fields_def field_names)

text \<open>
  C4. When the decoded text is a dictionary and \<^verbatim>\<open>loads\<close> (or \<^verbatim>\<open>load\<close>) returns, the
  result is a dictionary that has both \<^verbatim>\<open>token_uri\<close> and \<^verbatim>\<open>revoke_uri\<close>: with the value
  of the input where the input has the key, with the default constant where it has not.
\<close>

theorem C4_parse_backfills_uris:
  assumes "json_loads E s = Inr (PDict d)"
    and "loads E s = Inr r \<or> load E s = Inr r"
  shows "\<exists>d'. r = PDict d'
     \<and> map_of d' TOKEN_URI_FIELD_NAME =
         Some (case map_of d TOKEN_URI_FIELD_NAME of
                 Some v \<Rightarrow> v | None \<Rightarrow> PStr (GOOGLE_TOKEN_URI E))
     \<and> map_of d' REVOKE_URI_FIELD_NAME =
         Some (case map_of d REVOKE_URI_FIELD_NAME of
                 Some v \<Rightarrow> v | None \<Rightarrow> PStr (GOOGLE_REVOKE_URI E))"
proof -
  obtain d' where d': "set_optional_fields E (PDict d) None None = Inr (PDict d')"
    and tok0: "map_of d' TOKEN_URI_FIELD_NAME =
         Some (case map_of d TOKEN_URI_FIELD_NAME of
                 Some w \<Rightarrow> w
               | None \<Rightarrow> (case None of None \<Rightarrow> PStr (GOOGLE_TOKEN_URI E) | Some v \<Rightarrow> v))"
    and rev0: "map_of d' REVOKE_URI_FIELD_NAME =
         Some (case map_of d REVOKE_URI_FIELD_NAME of
                 Some w \<Rightarrow> w
               | None \<Rightarrow> (case None of None \<Rightarrow> PStr (GOOGLE_REVOKE_URI E) | Some v \<Rightarrow> v))"
    using set_optional_fields_dict [of E d None None] by blast
  have tok: "map_of d' TOKEN_URI_FIELD_NAME =
         Some (case map_of d TOKEN_URI_FIELD_NAME of
                 Some w \<Rightarrow> w | None \<Rightarrow> PStr (GOOGLE_TOKEN_URI E))"
    using tok0 by (cases "map_of d TOKEN_URI_FIELD_NAME") simp_all
  have rev: "map_of d' REVOKE_URI_FIELD_NAME =
         Some (case map_of d REVOKE_URI_FIELD_NAME of
                 Some w \<Rightarrow> w | None \<Rightarrow> PStr (GOOGLE_REVOKE_URI E))"
    using rev0 by (cases "map_of d REVOKE_URI_FIELD_NAME") simp_all
  from assms(2) have "loads E s = Inr r"
    by (simp add: load_eq_loads)
  then have "validate_credential_object E (PDict d') = Inr r"
    using assms(1) d' by (simp add: loads_def)
  then have "r = PDict d'"
    by (rule validate_returns_argument)
  with tok rev show ?thesis
    by blast
qed

theorem C4_parse_backfills_uris_witness:
  "json_loads sample_env sample_text_service_account =
     Inr (PDict [(''type'', PStr ''service_account''), (''client_id'', PStr ''123''),
                 (''client_email'', PStr ''dummy@google.com''),
                 (''private_key_id'', PStr ''ABCDEF''), (''private_key'', PStr ''k'')])
   \<and> loads sample_env sample_text_service_account =
     Inr (PDict [(''type'', PStr ''service_account''), (''client_id'', PStr ''123''),
                 (''client_email'', PStr ''dummy@google.com''),
                 (''private_key_id'', PStr ''ABCDEF''), (''private_key'', PStr ''k''),
                 (''token_uri'', PStr ''https://accounts.google.com/o/oauth2/token''),
                 (''revoke_uri'', PStr ''https://accounts.google.com/o/oauth2/revoke'')])
   \<and> (\<exists>d'. PDict [(''type'', PStr ''service_account''), (''client_id'', PStr ''123''),
                 (''client_email'', PStr ''dummy@google.com''),
                 (''private_key_id'', PStr ''ABCDEF''), (''private_key'', PStr ''k''),
                 (''token_uri'', PStr ''https://accounts.google.com/o/oauth2/token''),
                 (''revoke_uri'', PStr ''https://accounts.google.com/o/oauth2/revoke'')]
            = PDict d'
        \<and> map_of d' TOKEN_URI_FIELD_NAME =
             Some (PStr ''https://accounts.google.com/o/oauth2/token'')
        \<and> map_of d' REVOKE_URI_FIELD_NAME =
             Some (PStr ''https://accounts.google.com/o/oauth2/revoke''))"
proof -
  have dec: "json_loads sample_env sample_text_service_account =
     Inr (PDict [(''type'', PStr ''service_account''), (''client_id'', PStr ''123''),
                 (''client_email'', PStr ''dummy@google.com''),
                 (''private_key_id'', PStr ''ABCDEF''), (''private_key'', PStr ''k'')])"
    by (simp add: sample_env_def sample_json_loads_def)
  have run: "loads sample_env sample_text_service_account =
     Inr (PDict [(''type'', PStr ''service_account''), (''client_id'', PStr ''123''),
                 (''client_email'', PStr ''dummy@google.com''),
                 (''private_key_id'', PStr ''ABCDEF''), (''private_key'', PStr ''k''),
                 (''token_uri'', PStr ''https://accounts.google.com/o/oauth2/token''),
                 (''revoke_uri'', PStr ''https://accounts.google.com/o/oauth2/revoke'')])"
    by (simp add: loads_def dec set_optional_fields_def validate_credential_object_def
          check_credential_type_def REQUIRED_SERVICE_ACCOUNT_FIELDS_def dict_keys_def
          Let_def field_names)
      (simp add: sample_env_def)
  from C4_parse_backfills_uris [OF dec disjI1, OF run] dec run show ?thesis
    by (simp add: sample_env_def field_names)
qed

text \<open>
  C5. A dictionary whose \<^verbatim>\<open>type\<close> is a known string and whose keys do not cover the
  required fields of that variant fails validation with \<^verbatim>\<open>InvalidCredentialModelError\<close>;
  the message is the fixed prefix followed by the missing field names joined with
  \<^verbatim>\<open>', '\<close>, each once, in the order in which the set is iterated. In particular
  \<^verbatim>\<open>loads\<close> on a text decoding to \<^verbatim>\<open>{"type":"service_account","client_id":"123"}\<close> fails
  listing exactly \<^verbatim>\<open>client_email\<close>, \<^verbatim>\<open>private_key_id\<close> and \<^verbatim>\<open>private_key\<close>.
\<close>

theorem C5_missing_fields_listed:
  "((map_of d TYPE_FIELD_NAME = Some (PStr TYPE_SERVICE_ACCOUNT)
        \<and> missing = REQUIRED_SERVICE_ACCOUNT_FIELDS - set (dict_keys d)
      \<or> map_of d TYPE_FIELD_NAME = Some (PStr TYPE_AUTHORIZED_USER)
        \<and> missing = REQUIRED_AUTHORIZED_USER_FIELDS - set (dict_keys d))
     \<and> missing \<noteq> {}
     \<and> set (set_iter E missing) = missing \<and> distinct (set_iter E missing) \<longrightarrow>
     (\<exists>names. set names = missing \<and> distinct names
        \<and> validate_credential_object E (PDict d) =
            Inl (InvalidCredentialModelError
                   (''The following field(s) must be defined: '' @ join '', '' names))))
   \<and> (json_loads E s =
         Inr (PDict [(''type'', PStr ''service_account''), (''client_id'', PStr ''123'')])
     \<and> set (set_iter E {''client_email'', ''private_key_id'', ''private_key''}) =
         {''client_email'', ''private_key_id'', ''private_key''}
     \<and> distinct (set_iter E {''client_email'', ''private_key_id'', ''private_key''}) \<longrightarrow>
     (\<exists>names. set names = {''client_email'', ''private_key_id'', ''private_key''}
        \<and> distinct names
        \<and> loads E s =
            Inl (InvalidCredentialModelError
                   (''The following field(s) must be defined: '' @ join '', '' names))))"
proof (intro conjI impI)
  assume a: "(map_of d TYPE_FIELD_NAME = Some (PStr TYPE_SERVICE_ACCOUNT)
        \<and> missing = REQUIRED_SERVICE_ACCOUNT_FIELDS - set (dict_keys d)
      \<or> map_of d TYPE_FIELD_NAME = Some (PStr TYPE_AUTHORIZED_USER)
        \<and> missing = REQUIRED_AUTHORIZED_USER_FIELDS - set (dict_keys d))
     \<and> missing \<noteq> {}
     \<and> set (set_iter E missing) = missing \<and> distinct (set_iter E missing)"
  then have "validate_credential_object E (PDict d) =
      Inl (raise_exception_for_missing_fields E missing)"
    by (auto simp: validate_dict field_names)
  with a show "\<exists>names. set names = missing \<and> distinct names
        \<and> validate_credential_object E (PDict d) =
            Inl (InvalidCredentialModelError
                   (''The following field(s) must be defined: '' @ join '', '' names))"
    by (intro exI [of _ "set_iter E missing"])
      (simp add: raise_exception_for_missing_fields_def)
next
  let ?d = "[(''type'', PStr ''service_account''), (''client_id'', PStr ''123'')]"
  let ?d' = "[(''type'', PStr ''service_account''), (''client_id'', PStr ''123''),
              (''token_uri'', PStr (GOOGLE_TOKEN_URI E)),
              (''revoke_uri'', PStr (GOOGLE_REVOKE_URI E))]"
  let ?m = "{''client_email'', ''private_key_id'', ''private_key''}"
  assume a: "json_loads E s = Inr (PDict ?d)
     \<and> set (set_iter E ?m) = ?m \<and> distinct (set_iter E ?m)"
  have fill: "set_optional_fields E (PDict ?d) None None = Inr (PDict ?d')"
    by (simp add: set_optional_fields_def dict_keys_def field_names)
  have miss: "REQUIRED_SERVICE_ACCOUNT_FIELDS - set (dict_keys ?d') = ?m"
    by (auto simp: REQUIRED_SERVICE_ACCOUNT_FIELDS_def dict_keys_def field_names)
  have "validate_credential_object E (PDict ?d') =
      Inl (raise_exception_for_missing_fields E ?m)"
    unfolding validate_dict miss by (simp add: field_names)
  then have "loads E s = Inl (raise_exception_for_missing_fields E ?m)"
    using a fill by (simp add: loads_def)
  with a show "\<exists>names. set names = ?m \<and> distinct names
        \<and> loads E s =
            Inl (InvalidCredentialModelError
                   (''The following field(s) must be defined: '' @ join '', '' names))"
    by (intro exI [of _ "set_iter E ?m"])
      (simp add: raise_exception_for_missing_fields_def)
qed

theorem C5_missing_fields_listed_witness:
  "map_of [(''type'', PStr ''authorized_user''), (''client_id'', PStr ''123'')] TYPE_FIELD_NAME
     = Some (PStr TYPE_AUTHORIZED_USER)
   \<and> {''client_secret'', ''refresh_token''} =
       REQUIRED_AUTHORIZED_USER_FIELDS
         - set (dict_keys [(''type'', PStr ''authorized_user''), (''client_id'', PStr ''123'')])
   \<and> set_iter sample_env {''client_secret'', ''refresh_token''} =
       [''client_secret'', ''refresh_token'']
   \<and> (\<exists>names. set names = {''client_secret'', ''refresh_token''} \<and> distinct names
        \<and> validate_credential_object sample_env
             (PDict [(''type'', PStr ''authorized_user''), (''client_id'', PStr ''123'')]) =
            Inl (InvalidCredentialModelError
                   (''The following field(s) must be defined: '' @ join '', '' names)))
   \<and> json_loads sample_env sample_text_missing_fields =
         Inr (PDict [(''type'', PStr ''service_account''), (''client_id'', PStr ''123'')])
   \<and> set_iter sample_env {''client_email'', ''private_key_id'', ''private_key''} =
       [''client_email'', ''private_key'', ''private_key_id'']
   \<and> (\<exists>names. set names = {''client_email'', ''private_key_id'', ''private_key''}
        \<and> distinct names
        \<and> loads sample_env sample_text_missing_fields =
            Inl (InvalidCredentialModelError
                   (''The following field(s) must be defined: '' @ join '', '' names)))"
proof -
  have m: "{''client_secret'', ''refresh_token''} =
       REQUIRED_AUTHORIZED_USER_FIELDS
         - set (dict_keys [(''type'', PStr ''authorized_user''), (''client_id'', PStr ''123'')])"
    by (auto simp: REQUIRED_AUTHORIZED_USER_FIELDS_def dict_keys_def field_names)
  have i1: "set_iter sample_env {''client_secret'', ''refresh_token''} =
       [''client_secret'', ''refresh_token'']"
    by (simp add: sample_env_def sample_set_iter_def)
  have i2: "set_iter sample_env {''client_email'', ''private_key_id'', ''private_key''} =
       [''client_email'', ''private_key'', ''private_key_id'']"
    by (simp add: sample_env_def sample_set_iter_def)
  have dec: "json_loads sample_env sample_text_missing_fields =
         Inr (PDict [(''type'', PStr ''service_account''), (''client_id'', PStr ''123'')])"
    by (simp add: sample_env_def sample_json_loads_def sample_text_missing_fields_def
          sample_text_service_account_def)
  have t: "map_of [(''type'', PStr ''authorized_user''), (''client_id'', PStr ''123'')]
       TYPE_FIELD_NAME = Some (PStr TYPE_AUTHORIZED_USER)"
    by (simp add: field_names)
  note inst = C5_missing_fields_listed
    [where E = sample_env and s = sample_text_missing_fields
       and d = "[(''type'', PStr ''authorized_user''), (''client_id'', PStr ''123'')]"
       and missing = "{''client_secret'', ''refresh_token''}"]
  have p1: "\<exists>names. set names = {''client_secret'', ''refresh_token''} \<and> distinct names
        \<and> validate_credential_object sample_env
             (PDict [(''type'', PStr ''authorized_user''), (''client_id'', PStr ''123'')]) =
            Inl (InvalidCredentialModelError
                   (''The following field(s) must be defined: '' @ join '', '' names))"
    using inst [THEN conjunct1] t m i1 by auto
  have p2: "\<exists>names. set names = {''client_email'', ''private_key_id'', ''private_key''}
        \<and> distinct names
        \<and> loads sample_env sample_text_missing_fields =
            Inl (InvalidCredentialModelError
                   (''The following field(s) must be defined: '' @ join '', '' names))"
    using inst [THEN conjunct2] dec i2 by auto
  from t m i1 p1 dec i2 p2 show ?thesis
    by blast
qed

text \<open>
  C6. The claim holds of the function described; the code departs from it at the same
  place as in C2. With every required field of \<^verbatim>\<open>authorized_user\<close> given and the type
  passed as a string equal to \<^verbatim>\<open>'authorized_user'\<close> that is not the class constant,
  \<^verbatim>\<open>serialize_data\<close> returns \<^verbatim>\<open>None\<close> and no document. (With the class constant
  itself it returns the document the claim describes: lemmas
  \<open>serialize_data_service_account\<close> and \<open>serialize_data_authorized_user\<close>.)
\<close>

theorem C6_build_equal_type_no_document:
  "serialize_data sample_env (Fresh (PStr ''authorized_user'')) (PStr ''123'') PNone
       (PStr ''secret'') PNone PNone (PStr ''alabalaportocala'') None None False = Inr PNone"
  by (simp add: serialize_data_def is_constant_def check_credential_type_def field_names)

text \<open>
  C7. A document returned by \<^verbatim>\<open>serialize_data\<close> with
  \<^verbatim>\<open>include_optional_fields\<close> false has neither \<^verbatim>\<open>token_uri\<close> nor \<^verbatim>\<open>revoke_uri\<close>
  among its keys; a document returned with the flag true and neither URI argument given
  has both keys, with the default constants as values.
\<close>

theorem C7_optional_fields_flag:
  "(serialize_data E ct client_id client_email client_secret private_key private_key_id
        refresh_token token_uri revoke_uri False = Inr (PDict doc) \<longrightarrow>
      TOKEN_URI_FIELD_NAME \<notin> set (dict_keys doc)
      \<and> REVOKE_URI_FIELD_NAME \<notin> set (dict_keys doc))
   \<and> (serialize_data E ct client_id client_email client_secret private_key private_key_id
        refresh_token None None True = Inr (PDict doc') \<longrightarrow>
      map_of doc' TOKEN_URI_FIELD_NAME = Some (PStr (GOOGLE_TOKEN_URI E))
      \<and> map_of doc' REVOKE_URI_FIELD_NAME = Some (PStr (GOOGLE_REVOKE_URI E)))"
proof -
  consider (sa) "ct = Interned (PStr TYPE_SERVICE_ACCOUNT)"
    | (au) "ct = Interned (PStr TYPE_AUTHORIZED_USER)"
    | (other) "ct \<noteq> Interned (PStr TYPE_SERVICE_ACCOUNT)" "ct \<noteq> Interned (PStr TYPE_AUTHORIZED_USER)"
    by blast
  then show ?thesis
  proof cases
    case sa
    show ?thesis
      unfolding sa serialize_data_service_account
      by (auto simp: dict_keys_def field_names)
  next
    case au
    show ?thesis
      unfolding au serialize_data_authorized_user
      by (auto simp: dict_keys_def field_names)
  next
    case other
    then show ?thesis
      by (simp add: serialize_data_not_constant)
  qed
qed

theorem C7_optional_fields_flag_witness:
  "serialize_data sample_env (Interned (PStr ''authorized_user'')) (PStr ''123'') PNone
       (PStr ''secret'') PNone PNone (PStr ''alabalaportocala'') None None False =
     Inr (PDict [(''type'', PStr ''authorized_user''), (''client_id'', PStr ''123''),
                 (''client_secret'', PStr ''secret''),
                 (''refresh_token'', PStr ''alabalaportocala'')])
   \<and> TOKEN_URI_FIELD_NAME \<notin> set (dict_keys
         [(''type'', PStr ''authorized_user''), (''client_id'', PStr ''123''),
          (''client_secret'', PStr ''secret''), (''refresh_token'', PStr ''alabalaportocala'')])
   \<and> REVOKE_URI_FIELD_NAME \<notin> set (dict_keys
         [(''type'', PStr ''authorized_user''), (''client_id'', PStr ''123''),
          (''client_secret'', PStr ''secret''), (''refresh_token'', PStr ''alabalaportocala'')])
   \<and> serialize_data sample_env (Interned (PStr ''authorized_user'')) (PStr ''123'') PNone
       (PStr ''secret'') PNone PNone (PStr ''alabalaportocala'') None None True =
     Inr (PDict [(''type'', PStr ''authorized_user''), (''client_id'', PStr ''123''),
                 (''client_secret'', PStr ''secret''),
                 (''refresh_token'', PStr ''alabalaportocala''),
                 (''token_uri'', PStr ''https://accounts.google.com/o/oauth2/token''),
                 (''revoke_uri'', PStr ''https://accounts.google.com/o/oauth2/revoke'')])
   \<and> map_of [(''type'', PStr ''authorized_user''), (''client_id'', PStr ''123''),
              (''client_secret'', PStr ''secret''),
              (''refresh_token'', PStr ''alabalaportocala''),
              (''token_uri'', PStr ''https://accounts.google.com/o/oauth2/token''),
              (''revoke_uri'', PStr ''https://accounts.google.com/o/oauth2/revoke'')]
        TOKEN_URI_FIELD_NAME = Some (PStr (GOOGLE_TOKEN_URI sample_env))
   \<and> map_of [(''type'', PStr ''authorized_user''), (''client_id'', PStr ''123''),
              (''client_secret'', PStr ''secret''),
              (''refresh_token'', PStr ''alabalaportocala''),
              (''token_uri'', PStr ''https://accounts.google.com/o/oauth2/token''),
              (''revoke_uri'', PStr ''https://accounts.google.com/o/oauth2/revoke'')]
        REVOKE_URI_FIELD_NAME = Some (PStr (GOOGLE_REVOKE_URI sample_env))"
proof -
  have off: "serialize_data sample_env (Interned (PStr ''authorized_user'')) (PStr ''123'') PNone
       (PStr ''secret'') PNone PNone (PStr ''alabalaportocala'') None None False =
     Inr (PDict [(''type'', PStr ''authorized_user''), (''client_id'', PStr ''123''),
                 (''client_secret'', PStr ''secret''),
                 (''refresh_token'', PStr ''alabalaportocala'')])"
    by (simp add: serialize_data_def is_constant_def validate_credential_object_def
          check_credential_type_def REQUIRED_AUTHORIZED_USER_FIELDS_def dict_keys_def
          Let_def field_names)
  have on: "serialize_data sample_env (Interned (PStr ''authorized_user'')) (PStr ''123'') PNone
       (PStr ''secret'') PNone PNone (PStr ''alabalaportocala'') None None True =
     Inr (PDict [(''type'', PStr ''authorized_user''), (''client_id'', PStr ''123''),
                 (''client_secret'', PStr ''secret''),
                 (''refresh_token'', PStr ''alabalaportocala''),
                 (''token_uri'', PStr ''https://accounts.google.com/o/oauth2/token''),
                 (''revoke_uri'', PStr ''https://accounts.google.com/o/oauth2/revoke'')])"
    by (simp add: serialize_data_def is_constant_def set_optional_fields_def
          validate_credential_object_def check_credential_type_def
          REQUIRED_AUTHORIZED_USER_FIELDS_def dict_keys_def Let_def field_names)
      (simp add: sample_env_def)
  note inst = C7_optional_fields_flag
    [where E = sample_env and ct = "Interned (PStr ''authorized_user'')"
       and client_id = "PStr ''123''" and client_email = PNone
       and client_secret = "PStr ''secret''" and private_key = PNone
       and private_key_id = PNone and refresh_token = "PStr ''alabalaportocala''"
       and token_uri = None and revoke_uri = None]
  from inst [THEN conjunct1, rule_format, OF off] inst [THEN conjunct2, rule_format, OF on]
    off on
  show ?thesis
    by blast
qed

text \<open>
  C8. When \<^verbatim>\<open>serialize_data\<close> with \<^verbatim>\<open>include_optional_fields\<close> true has returned a
  document and a text decodes to that document, \<^verbatim>\<open>loads\<close> and \<^verbatim>\<open>load\<close> on the text
  return the same document.
\<close>

theorem C8_parse_after_build:
  assumes "serialize_data E ct client_id client_email client_secret private_key private_key_id
        refresh_token token_uri revoke_uri True = Inr (PDict doc)"
    and "json_loads E s = Inr (PDict doc)"
  shows "loads E s = Inr (PDict doc) \<and> load E s = Inr (PDict doc)"
proof -
  have built: "validate_credential_object E (PDict doc) = Inr (PDict doc)
      \<and> TOKEN_URI_FIELD_NAME \<in> set (dict_keys doc)
      \<and> REVOKE_URI_FIELD_NAME \<in> set (dict_keys doc)"
  proof -
    consider (sa) "ct = Interned (PStr TYPE_SERVICE_ACCOUNT)"
      | (au) "ct = Interned (PStr TYPE_AUTHORIZED_USER)"
      | (other) "ct \<noteq> Interned (PStr TYPE_SERVICE_ACCOUNT)"
          "ct \<noteq> Interned (PStr TYPE_AUTHORIZED_USER)"
      by blast
    then show ?thesis
    proof cases
      case sa
      from assms(1) have "doc =
          [(TYPE_FIELD_NAME, PStr TYPE_SERVICE_ACCOUNT), (CLIENT_ID_FIELD_NAME, client_id),
           (CLIENT_EMAIL_FIELD_NAME, client_email),
           (PRIVATE_KEY_ID_FIELD_NAME, private_key_id), (PRIVATE_KEY_FIELD_NAME, private_key),
           (TOKEN_URI_FIELD_NAME,
              case token_uri of None \<Rightarrow> PStr (GOOGLE_TOKEN_URI E) | Some v \<Rightarrow> v),
           (REVOKE_URI_FIELD_NAME,
              case revoke_uri of None \<Rightarrow> PStr (GOOGLE_REVOKE_URI E) | Some v \<Rightarrow> v)]"
        unfolding sa serialize_data_service_account by simp
      then show ?thesis
        by (simp add: validate_dict REQUIRED_SERVICE_ACCOUNT_FIELDS_def dict_keys_def
              field_names)
    next
      case au
      from assms(1) have "doc =
          [(TYPE_FIELD_NAME, PStr TYPE_AUTHORIZED_USER), (CLIENT_ID_FIELD_NAME, client_id),
           (CLIENT_SECRET_FIELD_NAME, client_secret),
           (REFRESH_TOKEN_FIELD_NAME, refresh_token),
           (TOKEN_URI_FIELD_NAME,
              case token_uri of None \<Rightarrow> PStr (GOOGLE_TOKEN_URI E) | Some v \<Rightarrow> v),
           (REVOKE_URI_FIELD_NAME,
              case revoke_uri of None \<Rightarrow> PStr (GOOGLE_REVOKE_URI E) | Some v \<Rightarrow> v)]"
        unfolding au serialize_data_authorized_user by simp
      then show ?thesis
        by (simp add: validate_dict REQUIRED_AUTHORIZED_USER_FIELDS_def dict_keys_def
              field_names)
    next
      case other
      with assms(1) show ?thesis
        by (simp add: serialize_data_not_constant split: if_splits)
    qed
  qed
  then have "set_optional_fields E (PDict doc) None None = Inr (PDict doc)"
    by (simp add: set_optional_fields_present)
  with built assms(2) have "loads E s = Inr (PDict doc)"
    by (simp add: loads_def)
  then show ?thesis
    by (simp add: load_eq_loads)
qed

theorem C8_parse_after_build_witness:
  "serialize_data sample_env (Interned (PStr ''authorized_user'')) (PStr ''123'') PNone
       (PStr ''secret'') PNone PNone (PStr ''alabalaportocala'') None None True =
     Inr (PDict [(''type'', PStr ''authorized_user''), (''client_id'', PStr ''123''),
                 (''client_secret'', PStr ''secret''),
                 (''refresh_token'', PStr ''alabalaportocala''),
                 (''token_uri'', PStr ''https://accounts.google.com/o/oauth2/token''),
                 (''revoke_uri'', PStr ''https://accounts.google.com/o/oauth2/revoke'')])
   \<and> json_loads sample_env sample_text_authorized_user =
     Inr (PDict [(''type'', PStr ''authorized_user''), (''client_id'', PStr ''123''),
                 (''client_secret'', PStr ''secret''),
                 (''refresh_token'', PStr ''alabalaportocala''),
                 (''token_uri'', PStr ''https://accounts.google.com/o/oauth2/token''),
                 (''revoke_uri'', PStr ''https://accounts.google.com/o/oauth2/revoke'')])
   \<and> loads sample_env sample_text_authorized_user =
     Inr (PDict [(''type'', PStr ''authorized_user''), (''client_id'', PStr ''123''),
                 (''client_secret'', PStr ''secret''),
                 (''refresh_token'', PStr ''alabalaportocala''),
                 (''token_uri'', PStr ''https://accounts.google.com/o/oauth2/token''),
                 (''revoke_uri'', PStr ''https://accounts.google.com/o/oauth2/revoke'')])
   \<and> load sample_env sample_text_authorized_user =
     Inr (PDict [(''type'', PStr ''authorized_user''), (''client_id'', PStr ''123''),
                 (''client_secret'', PStr ''secret''),
                 (''refresh_token'', PStr ''alabalaportocala''),
                 (''token_uri'', PStr ''https://accounts.google.com/o/oauth2/token''),
                 (''revoke_uri'', PStr ''https://accounts.google.com/o/oauth2/revoke'')])"
proof -
  have built: "serialize_data sample_env (Interned (PStr ''authorized_user'')) (PStr ''123'')
       PNone (PStr ''secret'') PNone PNone (PStr ''alabalaportocala'') None None True =
     Inr (PDict [(''type'', PStr ''authorized_user''), (''client_id'', PStr ''123''),
                 (''client_secret'', PStr ''secret''),
                 (''refresh_token'', PStr ''alabalaportocala''),
                 (''token_uri'', PStr ''https://accounts.google.com/o/oauth2/token''),
                 (''revoke_uri'', PStr ''https://accounts.google.com/o/oauth2/revoke'')])"
    by (simp add: serialize_data_def is_constant_def set_optional_fields_def
          validate_credential_object_def check_credential_type_def
          REQUIRED_AUTHORIZED_USER_FIELDS_def dict_keys_def Let_def field_names)
      (simp add: sample_env_def)
  have dec: "json_loads sample_env sample_text_authorized_user =
     Inr (PDict [(''type'', PStr ''authorized_user''), (''client_id'', PStr ''123''),
                 (''client_secret'', PStr ''secret''),
                 (''refresh_token'', PStr ''alabalaportocala''),
                 (''token_uri'', PStr ''https://accounts.google.com/o/oauth2/token''),
                 (''revoke_uri'', PStr ''https://accounts.google.com/o/oauth2/revoke'')])"
    by (simp add: sample_env_def sample_json_loads_def sample_text_authorized_user_def
          sample_text_service_account_def sample_text_missing_fields_def
          sample_text_unknown_type_def)
  from C8_parse_after_build [OF built dec] built dec show ?thesis
    by simp
qed

text \<open>
  C9. A dictionary without the key \<^verbatim>\<open>type\<close> fails in the lookup itself, with
  \<^verbatim>\<open>KeyError\<close> for that key and so with no \<^verbatim>\<open>InvalidCredentialModelError\<close>; a
  dictionary whose \<^verbatim>\<open>type\<close> is present and is neither known string fails with
  \<^verbatim>\<open>InvalidCredentialModelError\<close> and the message for an unknown type.
\<close>

theorem C9_validate_missing_type_key:
  "(TYPE_FIELD_NAME \<notin> set (dict_keys d) \<longrightarrow>
      validate_credential_object E (PDict d) = Inl (KeyError ''type'')
      \<and> (\<forall>msg. validate_credential_object E (PDict d) \<noteq> Inl (InvalidCredentialModelError msg)))
   \<and> (map_of d' TYPE_FIELD_NAME = Some t \<and> t \<noteq> PStr TYPE_SERVICE_ACCOUNT
        \<and> t \<noteq> PStr TYPE_AUTHORIZED_USER \<longrightarrow>
      validate_credential_object E (PDict d') =
        Inl (InvalidCredentialModelError
          (CHR 0x27 # ''type' field should be defined (and have one of the 'authorized_user' or 'service_account' values)'')))"
  by (simp add: validate_dict in_dict_keys_iff unknown_type_message TYPE_FIELD_NAME_def)

theorem C9_validate_missing_type_key_witness:
  "TYPE_FIELD_NAME \<notin> set (dict_keys [(''client_id'', PStr ''123'')])
   \<and> validate_credential_object sample_env (PDict [(''client_id'', PStr ''123'')])
       = Inl (KeyError ''type'')
   \<and> map_of [(''type'', PStr ''badtype'')] TYPE_FIELD_NAME = Some (PStr ''badtype'')
   \<and> validate_credential_object sample_env (PDict [(''type'', PStr ''badtype'')]) =
        Inl (InvalidCredentialModelError
          (CHR 0x27 # ''type' field should be defined (and have one of the 'authorized_user' or 'service_account' values)''))"
  using C9_validate_missing_type_key
    [of "[(''client_id'', PStr ''123'')]" sample_env "[(''type'', PStr ''badtype'')]"
        "PStr ''badtype''"]
  by (simp add: dict_keys_def field_names)

text \<open>
  C10. Validating \<^verbatim>\<open>None\<close> fails with the module's own exception and the message
  \<^verbatim>\<open>Empty credential object.\<close>; the test for \<^verbatim>\<open>None\<close> is the first statement of
  \<^verbatim>\<open>_validate_credential_object\<close>, so nothing of the document is read and the result
  does not depend on the environment.
\<close>

theorem C10_validate_none:
  "validate_credential_object E PNone =
     Inl (InvalidCredentialModelError ''Empty credential object.'')"
  by (simp add: validate_credential_object_def)

end
